theory Spec2Isabelle
  imports Main
begin

section \<open>Data model of \<open>app.py\<close>\<close>

text \<open>
  The two SQLModel tables. \<open>Participant.id\<close> is the integer primary key generated by the
  store (the field is called \<open>id_pk\<close> here, \<open>id\<close> being the identity function of HOL);
  \<open>Activity.name\<close> is the primary key of the activity table. The relationship attributes
  (\<open>Participant.activity\<close>, \<open>Activity.participants\<close>) are not columns: they are the join on
  \<open>activity_name = name\<close> and are modelled by \<open>participants_of\<close> below.
\<close>

record Participant =
  id_pk :: int
  email :: string
  activity_name :: string

record Activity =
  name :: string
  description :: string
  schedule :: string
  max_participants :: int

text \<open>
  The database behind \<open>engine\<close>: each table is the list of its rows, in insertion order
  (the order in which a \<open>select\<close> without \<open>ORDER BY\<close> returns them).
\<close>

record store =
  activity_tbl :: "Activity list"
  participant_tbl :: "Participant list"

text \<open>\<open>raise HTTPException(status_code=..., detail=...)\<close> is a value of this type.\<close>

datatype HTTPException = HTTPException (status_code: int) (detail: string)

text \<open>
  The inner dictionaries of \<open>seed\<close> and of the result of \<open>activities_as_dict\<close> have the
  same four keys; the fields carry the suffix \<open>_v\<close> to keep them apart from the columns.
\<close>

record activity_entry =
  description_v :: string
  schedule_v :: string
  max_participants_v :: int
  participants_v :: "string list"

section \<open>Session primitives\<close>

text \<open>\<open>session.get(Activity, activity_name)\<close>: the row with that primary key, or None.\<close>

definition session_get :: "store \<Rightarrow> string \<Rightarrow> Activity option" where
  "session_get s an = find (\<lambda>a. name a = an) (activity_tbl s)"

text \<open>
  \<open>select(Participant).where((Participant.activity_name == activity_name) &
  (Participant.email == email))\<close>: all rows for the pair, in table order.
\<close>

definition select_participant_where :: "store \<Rightarrow> string \<Rightarrow> string \<Rightarrow> Participant list" where
  "select_participant_where s an em =
     filter (\<lambda>p. activity_name p = an \<and> email p = em) (participant_tbl s)"

text \<open>\<open>.first()\<close> of a result: its first row, or None when there is none.\<close>

definition first :: "'a list \<Rightarrow> 'a option" where
  "first rows = (case rows of [] \<Rightarrow> None | r # _ \<Rightarrow> Some r)"

text \<open>
  The key the store gives to a row inserted with \<open>id = None\<close>: one more than the largest
  key in the table, 1 in an empty table (the keys it has given are positive).
\<close>

definition next_id :: "Participant list \<Rightarrow> int" where
  "next_id ps = fold max (map id_pk ps) 0 + 1"

text \<open>\<open>session.add(Participant(email=email, activity_name=activity_name))\<close>, committed.\<close>

definition add_participant :: "string \<Rightarrow> string \<Rightarrow> store \<Rightarrow> store" where
  "add_participant em an s =
     s\<lparr>participant_tbl := participant_tbl s @
          [\<lparr>id_pk = next_id (participant_tbl s), email = em, activity_name = an\<rparr>]\<rparr>"

text \<open>\<open>session.add(a)\<close> for an Activity, committed.\<close>

definition add_activity :: "Activity \<Rightarrow> store \<Rightarrow> store" where
  "add_activity a s = s\<lparr>activity_tbl := activity_tbl s @ [a]\<rparr>"

text \<open>\<open>session.delete(participant)\<close>, committed: the row is deleted by its primary key.\<close>

definition session_delete :: "Participant \<Rightarrow> store \<Rightarrow> store" where
  "session_delete p s =
     s\<lparr>participant_tbl := filter (\<lambda>q. id_pk q \<noteq> id_pk p) (participant_tbl s)\<rparr>"

text \<open>\<open>a.participants\<close>: the rows of the participant table that reference the activity.\<close>

definition participants_of :: "store \<Rightarrow> Activity \<Rightarrow> Participant list" where
  "participants_of s a = filter (\<lambda>p. activity_name p = name a) (participant_tbl s)"

section \<open>Seeding\<close>

definition seed :: "(string \<times> activity_entry) list" where
  "seed =
    [(''Chess Club'',
      \<lparr>description_v = ''Learn strategies and compete in chess tournaments'',
       schedule_v = ''Fridays, 3:30 PM - 5:00 PM'',
       max_participants_v = 12,
       participants_v = [''michael@mergington.edu'', ''daniel@mergington.edu'']\<rparr>),
     (''Programming Class'',
      \<lparr>description_v = ''Learn programming fundamentals and build software projects'',
       schedule_v = ''Tuesdays and Thursdays, 3:30 PM - 4:30 PM'',
       max_participants_v = 20,
       participants_v = [''emma@mergington.edu'', ''sophia@mergington.edu'']\<rparr>),
     (''Gym Class'',
      \<lparr>description_v = ''Physical education and sports activities'',
       schedule_v = ''Mondays, Wednesdays, Fridays, 2:00 PM - 3:00 PM'',
       max_participants_v = 30,
       participants_v = [''john@mergington.edu'', ''olivia@mergington.edu'']\<rparr>),
     (''Soccer Team'',
      \<lparr>description_v = ''Join the school soccer team and compete in matches'',
       schedule_v = ''Tuesdays and Thursdays, 4:00 PM - 5:30 PM'',
       max_participants_v = 22,
       participants_v = [''liam@mergington.edu'', ''noah@mergington.edu'']\<rparr>),
     (''Basketball Team'',
      \<lparr>description_v = ''Practice and play basketball with the school team'',
       schedule_v = ''Wednesdays and Fridays, 3:30 PM - 5:00 PM'',
       max_participants_v = 15,
       participants_v = [''ava@mergington.edu'', ''mia@mergington.edu'']\<rparr>),
     (''Art Club'',
      \<lparr>description_v = ''Explore your creativity through painting and drawing'',
       schedule_v = ''Thursdays, 3:30 PM - 5:00 PM'',
       max_participants_v = 15,
       participants_v = [''amelia@mergington.edu'', ''harper@mergington.edu'']\<rparr>),
     (''Drama Club'',
      \<lparr>description_v = ''Act, direct, and produce plays and performances'',
       schedule_v = ''Mondays and Wednesdays, 4:00 PM - 5:30 PM'',
       max_participants_v = 20,
       participants_v = [''ella@mergington.edu'', ''scarlett@mergington.edu'']\<rparr>),
     (''Math Club'',
      \<lparr>description_v = ''Solve challenging problems and participate in math competitions'',
       schedule_v = ''Tuesdays, 3:30 PM - 4:30 PM'',
       max_participants_v = 10,
       participants_v = [''james@mergington.edu'', ''benjamin@mergington.edu'']\<rparr>),
     (''Debate Team'',
      \<lparr>description_v = ''Develop public speaking and argumentation skills'',
       schedule_v = ''Fridays, 4:00 PM - 5:30 PM'',
       max_participants_v = 12,
       participants_v = [''charlotte@mergington.edu'', ''henry@mergington.edu'']\<rparr>)]"

text \<open>
  One round of the loop \<open>for name, data in seed.items()\<close>: the activity row, then one
  participant row for each email of its roster.
\<close>

definition seed_activity :: "string \<times> activity_entry \<Rightarrow> store \<Rightarrow> store" where
  "seed_activity nd s =
     fold (\<lambda>em. add_participant em (fst nd)) (participants_v (snd nd))
       (add_activity
          \<lparr>name = fst nd, description = description_v (snd nd),
           schedule = schedule_v (snd nd),
           max_participants = max_participants_v (snd nd)\<rparr> s)"

text \<open>
  \<open>init_db_with_seed\<close>: \<open>first = session.exec(select(Activity)).first()\<close>; return at once
  when there is a first row, otherwise insert the whole seed.
\<close>

definition init_db_with_seed :: "store \<Rightarrow> store" where
  "init_db_with_seed s =
     (case first (activity_tbl s) of
        Some a \<Rightarrow> s
      | None \<Rightarrow> fold seed_activity seed s)"

definition empty_store :: store where
  "empty_store = \<lparr>activity_tbl = [], participant_tbl = []\<rparr>"

section \<open>The operations\<close>

text \<open>
  \<open>activities_as_dict\<close>: the loop \<open>for a in activities: result[a.name] = {...}\<close> over all
  rows of the activity table, starting from the empty dictionary; \<open>entry_of\<close> is the
  dictionary built for one row, with \<open>emails = [p.email for p in a.participants]\<close>.
\<close>

definition entry_of :: "store \<Rightarrow> Activity \<Rightarrow> activity_entry" where
  "entry_of s a =
     \<lparr>description_v = description a, schedule_v = schedule a,
      max_participants_v = max_participants a,
      participants_v = map email (participants_of s a)\<rparr>"

definition activities_as_dict :: "store \<Rightarrow> (string \<rightharpoonup> activity_entry)" where
  "activities_as_dict s =
     fold (\<lambda>a result. result(name a \<mapsto> entry_of s a)) (activity_tbl s) Map.empty"

definition get_activities :: "store \<Rightarrow> (string \<rightharpoonup> activity_entry)" where
  "get_activities s = activities_as_dict s"

text \<open>
  The two writing handlers return the store they leave behind and either the exception
  they raise (\<open>Inl\<close>) or the text of the \<open>message\<close> entry of the dictionary they return
  (\<open>Inr\<close>). A handler that raises has written nothing, and its session is closed without
  a commit, so the store it leaves is the one it found.
\<close>

definition signup_for_activity ::
  "store \<Rightarrow> string \<Rightarrow> string \<Rightarrow> store \<times> (HTTPException + string)" where
  "signup_for_activity s an em =
     (case session_get s an of
        None \<Rightarrow> (s, Inl (HTTPException 404 ''Activity not found''))
      | Some activity \<Rightarrow>
          (case first (select_participant_where s an em) of
             Some existing \<Rightarrow> (s, Inl (HTTPException 400 ''Student is already signed up''))
           | None \<Rightarrow>
               (add_participant em an s, Inr (''Signed up '' @ em @ '' for '' @ an))))"

definition unregister_from_activity ::
  "store \<Rightarrow> string \<Rightarrow> string \<Rightarrow> store \<times> (HTTPException + string)" where
  "unregister_from_activity s an em =
     (case session_get s an of
        None \<Rightarrow> (s, Inl (HTTPException 404 ''Activity not found''))
      | Some activity \<Rightarrow>
          (case first (select_participant_where s an em) of
             None \<Rightarrow>
               (s, Inl (HTTPException 400 ''Student is not signed up for this activity''))
           | Some participant \<Rightarrow>
               (session_delete participant s,
                Inr (''Unregistered '' @ em @ '' from '' @ an))))"

section \<open>Vocabulary of the specification\<close>

text \<open>The error taxonomy of the specification, as the exceptions the handlers raise.\<close>

definition NotFound :: HTTPException where
  "NotFound = HTTPException 404 ''Activity not found''"

definition AlreadyRegistered :: HTTPException where
  "AlreadyRegistered = HTTPException 400 ''Student is already signed up''"

definition NotRegistered :: HTTPException where
  "NotRegistered = HTTPException 400 ''Student is not signed up for this activity''"

text \<open>An activity with this name exists; a participant row for the pair exists.\<close>

definition activity_exists :: "store \<Rightarrow> string \<Rightarrow> bool" where
  "activity_exists s an \<longleftrightarrow> an \<in> name ` set (activity_tbl s)"

definition registered :: "store \<Rightarrow> string \<Rightarrow> string \<Rightarrow> bool" where
  "registered s an em \<longleftrightarrow> select_participant_where s an em \<noteq> []"

text \<open>The primary keys of the schema: no two rows of a table share their key.\<close>

definition primary_keys_unique :: "store \<Rightarrow> bool" where
  "primary_keys_unique s \<longleftrightarrow>
     distinct (map name (activity_tbl s)) \<and> distinct (map id_pk (participant_tbl s))"

text \<open>The uniqueness invariant per (activity, email) pair, which is no schema constraint.\<close>

definition pair_unique :: "store \<Rightarrow> bool" where
  "pair_unique s \<longleftrightarrow> distinct (map (\<lambda>p. (activity_name p, email p)) (participant_tbl s))"

text \<open>Both kinds of uniqueness together.\<close>

definition rows_unique :: "store \<Rightarrow> bool" where
  "rows_unique s \<longleftrightarrow> primary_keys_unique s \<and> pair_unique s"

text \<open>Referential integrity: every participant row names an existing activity.\<close>

definition referential_integrity :: "store \<Rightarrow> bool" where
  "referential_integrity s \<longleftrightarrow>
     list_all (\<lambda>p. activity_name p \<in> name ` set (activity_tbl s)) (participant_tbl s)"

text \<open>The store of a first start: the seed written into empty tables.\<close>

definition seeded_store :: store where
  "seeded_store = init_db_with_seed empty_store"

text \<open>
  A store with two rows for one (activity, email) pair and distinct primary keys. The
  schema has no uniqueness constraint on the pair, so the tables admit it.
\<close>

definition twin_store :: store where
  "twin_store =
     \<lparr>activity_tbl =
        [\<lparr>name = ''Chess Club'',
          description = ''Learn strategies and compete in chess tournaments'',
          schedule = ''Fridays, 3:30 PM - 5:00 PM'', max_participants = 12\<rparr>],
      participant_tbl =
        [\<lparr>id_pk = 1, email = ''michael@mergington.edu'', activity_name = ''Chess Club''\<rparr>,
         \<lparr>id_pk = 2, email = ''michael@mergington.edu'', activity_name = ''Chess Club''\<rparr>]\<rparr>"

text \<open>
  The three routes that read or write the tables, as requests, and what the application
  answers: the mapping of \<open>get_activities\<close>, or the exception or message of the two
  writing handlers. \<open>run\<close> serves a list of requests one after the other.
\<close>

datatype request =
  GET_activities
| POST_signup string string
| DELETE_unregister string string

datatype response =
  Listing "string \<rightharpoonup> activity_entry"
| Outcome "HTTPException + string"

fun serve :: "store \<Rightarrow> request \<Rightarrow> store \<times> response" where
  "serve s GET_activities = (s, Listing (get_activities s))"
| "serve s (POST_signup an em) =
     (fst (signup_for_activity s an em), Outcome (snd (signup_for_activity s an em)))"
| "serve s (DELETE_unregister an em) =
     (fst (unregister_from_activity s an em),
      Outcome (snd (unregister_from_activity s an em)))"

fun run :: "store \<Rightarrow> request list \<Rightarrow> store" where
  "run s [] = s"
| "run s (r # rs) = run (fst (serve s r)) rs"

text \<open>Overwriting the capacity column of every activity row.\<close>

definition set_capacities :: "(Activity \<Rightarrow> int) \<Rightarrow> store \<Rightarrow> store" where
  "set_capacities f s =
     s\<lparr>activity_tbl := map (\<lambda>a. a\<lparr>max_participants := f a\<rparr>) (activity_tbl s)\<rparr>"

section \<open>Facts about the session primitives\<close>

lemma session_get_None: "session_get s an = None \<longleftrightarrow> \<not> activity_exists s an"
  by (auto simp: session_get_def activity_exists_def find_None_iff)

lemma session_get_Some: "activity_exists s an \<Longrightarrow> \<exists>a. session_get s an = Some a"
  using session_get_None [of s an] by auto

lemma first_None: "first rows = None \<longleftrightarrow> rows = []"
  by (simp add: first_def split: list.splits)

lemma registered_iff:
  "registered s an em \<longleftrightarrow> (\<exists>p\<in>set (participant_tbl s). activity_name p = an \<and> email p = em)"
  by (auto simp: registered_def select_participant_where_def filter_empty_conv)

lemma id_le_fold_max: "p \<in> set ps \<Longrightarrow> id_pk p \<le> fold max (map id_pk ps) m"
proof (induction ps arbitrary: m)
  case Nil
  then show ?case by simp
next
  case (Cons q qs)
  have mono: "m \<le> fold max (map id_pk qs) m" for m
    by (induction qs arbitrary: m) (auto intro: order_trans [OF max.cobounded2])
  show ?case
  proof (cases "p = q")
    case True
    have "id_pk q \<le> max (id_pk q) m" by simp
    also have "\<dots> \<le> fold max (map id_pk qs) (max (id_pk q) m)" by (rule mono)
    finally show ?thesis using True by simp
  next
    case False
    with Cons.prems have "p \<in> set qs" by simp
    then show ?thesis using Cons.IH by simp
  qed
qed

lemma next_id_fresh: "p \<in> set ps \<Longrightarrow> id_pk p < next_id ps"
  using id_le_fold_max [of p ps 0] by (simp add: next_id_def)

lemma next_id_notin: "next_id ps \<notin> id_pk ` set ps"
  using next_id_fresh by fastforce

lemma fold_upd_lookup:
  "fold (\<lambda>a r. r(name a \<mapsto> g a)) as m n =
     (case find (\<lambda>a. name a = n) (rev as) of Some a \<Rightarrow> Some (g a) | None \<Rightarrow> m n)"
  by (induction as rule: rev_induct) (auto split: option.splits)

lemma as_dict_lookup:
  "activities_as_dict s n = map_option (entry_of s) (find (\<lambda>a. name a = n) (rev (activity_tbl s)))"
  by (simp add: activities_as_dict_def fold_upd_lookup split: option.splits)

lemma as_dict_participants:
  assumes "activity_exists s an"
  shows "\<exists>v. activities_as_dict s an = Some v \<and>
    participants_v v = map email (filter (\<lambda>p. activity_name p = an) (participant_tbl s))"
proof -
  from assms have "\<exists>a\<in>set (rev (activity_tbl s)). name a = an"
    by (auto simp: activity_exists_def)
  then obtain a where a: "find (\<lambda>a. name a = an) (rev (activity_tbl s)) = Some a"
    by (cases "find (\<lambda>a. name a = an) (rev (activity_tbl s))") (auto simp: find_None_iff)
  then have "name a = an" by (auto simp: find_Some_iff)
  with a show ?thesis
    by (simp add: as_dict_lookup entry_of_def participants_of_def)
qed

lemma signup_new:
  assumes "activity_exists s an" and "\<not> registered s an em"
  shows "signup_for_activity s an em =
     (add_participant em an s, Inr (''Signed up '' @ em @ '' for '' @ an))"
proof -
  from assms(1) obtain a where "session_get s an = Some a"
    using session_get_Some by blast
  moreover from assms(2) have "first (select_participant_where s an em) = None"
    by (simp add: first_None registered_def)
  ultimately show ?thesis by (simp add: signup_for_activity_def)
qed

lemma signup_dup:
  assumes "activity_exists s an" and "registered s an em"
  shows "signup_for_activity s an em = (s, Inl AlreadyRegistered)"
proof -
  from assms(1) obtain a where "session_get s an = Some a"
    using session_get_Some by blast
  moreover from assms(2) obtain p where "first (select_participant_where s an em) = Some p"
    by (cases "first (select_participant_where s an em)") (auto simp: first_None registered_def)
  ultimately show ?thesis by (simp add: signup_for_activity_def AlreadyRegistered_def)
qed

lemma signup_missing:
  assumes "\<not> activity_exists s an"
  shows "signup_for_activity s an em = (s, Inl NotFound)"
  using assms session_get_None [of s an] by (simp add: signup_for_activity_def NotFound_def)

lemma unregister_missing:
  assumes "\<not> activity_exists s an"
  shows "unregister_from_activity s an em = (s, Inl NotFound)"
  using assms session_get_None [of s an] by (simp add: unregister_from_activity_def NotFound_def)

lemma unregister_absent:
  assumes "activity_exists s an" and "\<not> registered s an em"
  shows "unregister_from_activity s an em = (s, Inl NotRegistered)"
proof -
  from assms(1) obtain a where "session_get s an = Some a"
    using session_get_Some by blast
  moreover from assms(2) have "first (select_participant_where s an em) = None"
    by (simp add: first_None registered_def)
  ultimately show ?thesis by (simp add: unregister_from_activity_def NotRegistered_def)
qed

lemma unregister_present:
  assumes "activity_exists s an" and "first (select_participant_where s an em) = Some p"
  shows "unregister_from_activity s an em =
     (session_delete p s, Inr (''Unregistered '' @ em @ '' from '' @ an))"
proof -
  from assms(1) obtain a where "session_get s an = Some a"
    using session_get_Some by blast
  with assms(2) show ?thesis by (simp add: unregister_from_activity_def)
qed

lemma registered_after_add: "registered (add_participant em an s) an em"
  by (simp add: registered_iff add_participant_def)

lemma activity_tbl_add_participant [simp]:
  "activity_tbl (add_participant em an s) = activity_tbl s"
  by (simp add: add_participant_def)

lemma activity_tbl_session_delete [simp]:
  "activity_tbl (session_delete p s) = activity_tbl s"
  by (simp add: session_delete_def)

lemma activity_exists_add_participant [simp]:
  "activity_exists (add_participant em an' s) an = activity_exists s an"
  by (simp add: activity_exists_def)

section \<open>The seeded store\<close>

lemmas seeding_defs = seeded_store_def init_db_with_seed_def empty_store_def first_def seed_def
  seed_activity_def add_activity_def add_participant_def next_id_def

lemmas listing_defs = get_activities_def activities_as_dict_def entry_of_def participants_of_def

lemma seeded_tables:
  "seeded_store =
    \<lparr>activity_tbl =
      [\<lparr>name = ''Chess Club'',
        description = ''Learn strategies and compete in chess tournaments'',
        schedule = ''Fridays, 3:30 PM - 5:00 PM'', max_participants = 12\<rparr>,
       \<lparr>name = ''Programming Class'',
        description = ''Learn programming fundamentals and build software projects'',
        schedule = ''Tuesdays and Thursdays, 3:30 PM - 4:30 PM'', max_participants = 20\<rparr>,
       \<lparr>name = ''Gym Class'',
        description = ''Physical education and sports activities'',
        schedule = ''Mondays, Wednesdays, Fridays, 2:00 PM - 3:00 PM'',
        max_participants = 30\<rparr>,
       \<lparr>name = ''Soccer Team'',
        description = ''Join the school soccer team and compete in matches'',
        schedule = ''Tuesdays and Thursdays, 4:00 PM - 5:30 PM'', max_participants = 22\<rparr>,
       \<lparr>name = ''Basketball Team'',
        description = ''Practice and play basketball with the school team'',
        schedule = ''Wednesdays and Fridays, 3:30 PM - 5:00 PM'', max_participants = 15\<rparr>,
       \<lparr>name = ''Art Club'',
        description = ''Explore your creativity through painting and drawing'',
        schedule = ''Thursdays, 3:30 PM - 5:00 PM'', max_participants = 15\<rparr>,
       \<lparr>name = ''Drama Club'',
        description = ''Act, direct, and produce plays and performances'',
        schedule = ''Mondays and Wednesdays, 4:00 PM - 5:30 PM'', max_participants = 20\<rparr>,
       \<lparr>name = ''Math Club'',
        description = ''Solve challenging problems and participate in math competitions'',
        schedule = ''Tuesdays, 3:30 PM - 4:30 PM'', max_participants = 10\<rparr>,
       \<lparr>name = ''Debate Team'',
        description = ''Develop public speaking and argumentation skills'',
        schedule = ''Fridays, 4:00 PM - 5:30 PM'', max_participants = 12\<rparr>],
     participant_tbl =
      [\<lparr>id_pk = 1, email = ''michael@mergington.edu'', activity_name = ''Chess Club''\<rparr>,
       \<lparr>id_pk = 2, email = ''daniel@mergington.edu'', activity_name = ''Chess Club''\<rparr>,
       \<lparr>id_pk = 3, email = ''emma@mergington.edu'', activity_name = ''Programming Class''\<rparr>,
       \<lparr>id_pk = 4, email = ''sophia@mergington.edu'', activity_name = ''Programming Class''\<rparr>,
       \<lparr>id_pk = 5, email = ''john@mergington.edu'', activity_name = ''Gym Class''\<rparr>,
       \<lparr>id_pk = 6, email = ''olivia@mergington.edu'', activity_name = ''Gym Class''\<rparr>,
       \<lparr>id_pk = 7, email = ''liam@mergington.edu'', activity_name = ''Soccer Team''\<rparr>,
       \<lparr>id_pk = 8, email = ''noah@mergington.edu'', activity_name = ''Soccer Team''\<rparr>,
       \<lparr>id_pk = 9, email = ''ava@mergington.edu'', activity_name = ''Basketball Team''\<rparr>,
       \<lparr>id_pk = 10, email = ''mia@mergington.edu'', activity_name = ''Basketball Team''\<rparr>,
       \<lparr>id_pk = 11, email = ''amelia@mergington.edu'', activity_name = ''Art Club''\<rparr>,
       \<lparr>id_pk = 12, email = ''harper@mergington.edu'', activity_name = ''Art Club''\<rparr>,
       \<lparr>id_pk = 13, email = ''ella@mergington.edu'', activity_name = ''Drama Club''\<rparr>,
       \<lparr>id_pk = 14, email = ''scarlett@mergington.edu'', activity_name = ''Drama Club''\<rparr>,
       \<lparr>id_pk = 15, email = ''james@mergington.edu'', activity_name = ''Math Club''\<rparr>,
       \<lparr>id_pk = 16, email = ''benjamin@mergington.edu'', activity_name = ''Math Club''\<rparr>,
       \<lparr>id_pk = 17, email = ''charlotte@mergington.edu'', activity_name = ''Debate Team''\<rparr>,
       \<lparr>id_pk = 18, email = ''henry@mergington.edu'', activity_name = ''Debate Team''\<rparr>]\<rparr>"
  by (simp add: seeding_defs)

lemma seeded_chess: "activity_exists seeded_store ''Chess Club''"
  by (simp add: seeded_tables activity_exists_def)

lemma seeded_new: "\<not> registered seeded_store ''Chess Club'' ''new@mergington.edu''"
  by (simp add: seeded_tables registered_def select_participant_where_def)

lemma seeded_michael:
  "select_participant_where seeded_store ''Chess Club'' ''michael@mergington.edu'' =
     [\<lparr>id_pk = 1, email = ''michael@mergington.edu'', activity_name = ''Chess Club''\<rparr>]"
  by (simp add: seeded_tables select_participant_where_def)

lemma seeded_keys: "primary_keys_unique seeded_store"
  by (simp add: seeded_tables primary_keys_unique_def)

section \<open>Signing up\<close>

text \<open>
  Claim C1. In every store, for an activity that exists and an email with no participant
  row for the pair, \<open>signup_for_activity\<close> succeeds: it appends exactly one row, with
  that email and activity name and a key no row had before, leaves every other row as it
  was, returns the message \<open>Signed up {email} for {activity_name}\<close>, and the email is in
  the participant list that \<open>get_activities\<close> then reports for the activity.
\<close>

theorem signup_succeeds:
  assumes "activity_exists s an" and "\<not> registered s an em"
  shows "signup_for_activity s an em =
           (s\<lparr>participant_tbl := participant_tbl s @
                [\<lparr>id_pk = next_id (participant_tbl s), email = em, activity_name = an\<rparr>]\<rparr>,
            Inr (''Signed up '' @ em @ '' for '' @ an)) \<and>
         next_id (participant_tbl s) \<notin> id_pk ` set (participant_tbl s) \<and>
         (\<exists>v. get_activities (fst (signup_for_activity s an em)) an = Some v \<and>
              em \<in> set (participants_v v))"
proof -
  let ?s' = "add_participant em an s"
  have res: "signup_for_activity s an em = (?s', Inr (''Signed up '' @ em @ '' for '' @ an))"
    using assms by (rule signup_new)
  have "activity_exists ?s' an"
    using assms(1) by simp
  then obtain v where v: "activities_as_dict ?s' an = Some v"
    and pv: "participants_v v = map email (filter (\<lambda>p. activity_name p = an) (participant_tbl ?s'))"
    using as_dict_participants by blast
  have "em \<in> set (participants_v v)"
    by (simp add: pv add_participant_def)
  with v res show ?thesis
    by (simp add: get_activities_def add_participant_def next_id_notin)
qed

text \<open>
  The scenario of the specification: on the seeded store, \<open>new@mergington.edu\<close> signs up
  for the Chess Club, which then lists three participants.
\<close>

theorem signup_succeeds_witness:
  "activity_exists seeded_store ''Chess Club'' \<and>
   \<not> registered seeded_store ''Chess Club'' ''new@mergington.edu'' \<and>
   snd (signup_for_activity seeded_store ''Chess Club'' ''new@mergington.edu'') =
     Inr ''Signed up new@mergington.edu for Chess Club'' \<and>
   map_option participants_v
     (get_activities (fst (signup_for_activity seeded_store ''Chess Club''
        ''new@mergington.edu'')) ''Chess Club'') =
     Some [''michael@mergington.edu'', ''daniel@mergington.edu'', ''new@mergington.edu'']"
proof -
  note r = signup_succeeds [OF seeded_chess seeded_new]
  from r have eq: "signup_for_activity seeded_store ''Chess Club'' ''new@mergington.edu'' =
     (seeded_store\<lparr>participant_tbl := participant_tbl seeded_store @
        [\<lparr>id_pk = next_id (participant_tbl seeded_store), email = ''new@mergington.edu'',
          activity_name = ''Chess Club''\<rparr>]\<rparr>,
      Inr (''Signed up '' @ ''new@mergington.edu'' @ '' for '' @ ''Chess Club''))"
    by (rule conjunct1)
  have "map_option participants_v
     (get_activities (seeded_store\<lparr>participant_tbl := participant_tbl seeded_store @
        [\<lparr>id_pk = next_id (participant_tbl seeded_store), email = ''new@mergington.edu'',
          activity_name = ''Chess Club''\<rparr>]\<rparr>) ''Chess Club'') =
     Some [''michael@mergington.edu'', ''daniel@mergington.edu'', ''new@mergington.edu'']"
    by (simp add: seeded_tables listing_defs)
  with seeded_chess seeded_new show ?thesis
    by (simp add: eq)
qed

text \<open>
  Claim C2. Where the activity exists and a participant row for the pair exists already,
  \<open>signup_for_activity\<close> raises \<open>AlreadyRegistered\<close> (status 400, detail
  \<open>Student is already signed up\<close>) and the store is unchanged. In particular a second
  signup after a successful first one is rejected, and leaves the store, hence the size
  of the participant list, as the first call left it.
\<close>

theorem signup_twice_rejected:
  "(activity_exists s an \<and> registered s an em \<longrightarrow>
      signup_for_activity s an em = (s, Inl AlreadyRegistered)) \<and>
   status_code AlreadyRegistered = 400 \<and>
   detail AlreadyRegistered = ''Student is already signed up'' \<and>
   (activity_exists s an \<and> \<not> registered s an em \<longrightarrow>
      (case signup_for_activity s an em of (s1, r1) \<Rightarrow>
         case signup_for_activity s1 an em of (s2, r2) \<Rightarrow>
           r1 = Inr (''Signed up '' @ em @ '' for '' @ an) \<and>
           r2 = Inl AlreadyRegistered \<and> s2 = s1 \<and>
           map_option (length \<circ> participants_v) (get_activities s2 an) =
           map_option (length \<circ> participants_v) (get_activities s1 an)))"
proof -
  have second: "signup_for_activity (add_participant em an s) an em =
      (add_participant em an s, Inl AlreadyRegistered)" if "activity_exists s an"
    using that by (intro signup_dup) (simp_all add: registered_after_add)
  show ?thesis
    by (simp add: signup_dup signup_new second AlreadyRegistered_def)
qed

theorem signup_twice_rejected_witness:
  "activity_exists seeded_store ''Chess Club'' \<and>
   registered seeded_store ''Chess Club'' ''michael@mergington.edu'' \<and>
   signup_for_activity seeded_store ''Chess Club'' ''michael@mergington.edu'' =
     (seeded_store, Inl (HTTPException 400 ''Student is already signed up'')) \<and>
   \<not> registered seeded_store ''Chess Club'' ''new@mergington.edu'' \<and>
   snd (signup_for_activity
         (fst (signup_for_activity seeded_store ''Chess Club'' ''new@mergington.edu''))
         ''Chess Club'' ''new@mergington.edu'') =
     Inl (HTTPException 400 ''Student is already signed up'')"
proof -
  have reg: "registered seeded_store ''Chess Club'' ''michael@mergington.edu''"
    by (simp add: registered_def seeded_michael)
  from signup_twice_rejected [of seeded_store "''Chess Club''" "''michael@mergington.edu''"]
  have first_part: "signup_for_activity seeded_store ''Chess Club'' ''michael@mergington.edu'' =
     (seeded_store, Inl (HTTPException 400 ''Student is already signed up''))"
    using seeded_chess reg by (simp add: AlreadyRegistered_def)
  from signup_twice_rejected [of seeded_store "''Chess Club''" "''new@mergington.edu''"]
  have second_part: "snd (signup_for_activity
         (fst (signup_for_activity seeded_store ''Chess Club'' ''new@mergington.edu''))
         ''Chess Club'' ''new@mergington.edu'') =
     Inl (HTTPException 400 ''Student is already signed up'')"
    using seeded_chess seeded_new by (simp add: AlreadyRegistered_def split: prod.splits)
  from seeded_chess reg first_part seeded_new second_part show ?thesis by simp
qed

text \<open>
  Claim C5. For a name that no activity row carries, \<open>signup_for_activity\<close> raises
  \<open>NotFound\<close> (status 404, detail \<open>Activity not found\<close>) whatever the email, and the
  store is unchanged. The existence check comes first: the answer is \<open>NotFound\<close>, not
  \<open>AlreadyRegistered\<close>, even when a participant row for the pair exists.
\<close>

theorem signup_unknown_activity:
  "(\<not> activity_exists s an \<longrightarrow> signup_for_activity s an em = (s, Inl NotFound)) \<and>
   (\<not> activity_exists s an \<and> registered s an em \<longrightarrow>
      snd (signup_for_activity s an em) \<noteq> Inl AlreadyRegistered) \<and>
   status_code NotFound = 404 \<and> detail NotFound = ''Activity not found''"
  by (simp add: signup_missing) (simp add: NotFound_def AlreadyRegistered_def)

theorem signup_unknown_activity_witness:
  "\<not> activity_exists seeded_store ''Robotics Club'' \<and>
   signup_for_activity seeded_store ''Robotics Club'' ''new@mergington.edu'' =
     (seeded_store, Inl (HTTPException 404 ''Activity not found'')) \<and>
   \<not> activity_exists (empty_store\<lparr>participant_tbl :=
        [\<lparr>id_pk = 1, email = ''new@mergington.edu'', activity_name = ''Robotics Club''\<rparr>]\<rparr>)
      ''Robotics Club'' \<and>
   registered (empty_store\<lparr>participant_tbl :=
        [\<lparr>id_pk = 1, email = ''new@mergington.edu'', activity_name = ''Robotics Club''\<rparr>]\<rparr>)
      ''Robotics Club'' ''new@mergington.edu'' \<and>
   snd (signup_for_activity (empty_store\<lparr>participant_tbl :=
        [\<lparr>id_pk = 1, email = ''new@mergington.edu'', activity_name = ''Robotics Club''\<rparr>]\<rparr>)
      ''Robotics Club'' ''new@mergington.edu'') = Inl (HTTPException 404 ''Activity not found'')"
proof -
  let ?o = "empty_store\<lparr>participant_tbl :=
        [\<lparr>id_pk = 1, email = ''new@mergington.edu'', activity_name = ''Robotics Club''\<rparr>]\<rparr>"
  have h1: "\<not> activity_exists seeded_store ''Robotics Club''"
    by (simp add: seeded_tables activity_exists_def)
  have h2: "\<not> activity_exists ?o ''Robotics Club''"
    by (simp add: empty_store_def activity_exists_def)
  have h3: "registered ?o ''Robotics Club'' ''new@mergington.edu''"
    by (simp add: empty_store_def registered_def select_participant_where_def)
  from signup_unknown_activity [of seeded_store "''Robotics Club''" "''new@mergington.edu''"] h1
  have a: "signup_for_activity seeded_store ''Robotics Club'' ''new@mergington.edu'' =
     (seeded_store, Inl (HTTPException 404 ''Activity not found''))"
    by (simp add: NotFound_def)
  from signup_unknown_activity [of ?o "''Robotics Club''" "''new@mergington.edu''"] h2
  have b: "snd (signup_for_activity ?o ''Robotics Club'' ''new@mergington.edu'') =
     Inl (HTTPException 404 ''Activity not found'')"
    by (simp add: NotFound_def)
  from h1 a h2 h3 b show ?thesis by simp
qed

section \<open>Unregistering\<close>

text \<open>
  Claim C6. Where the activity exists and no participant row for the pair exists,
  \<open>unregister_from_activity\<close> raises \<open>NotRegistered\<close> (status 400, detail
  \<open>Student is not signed up for this activity\<close>) and the store is unchanged. The
  existence check comes first: for an unknown activity the answer is \<open>NotFound\<close>,
  whether or not a row for the pair exists.
\<close>

theorem unregister_not_registered:
  "(activity_exists s an \<and> \<not> registered s an em \<longrightarrow>
      unregister_from_activity s an em = (s, Inl NotRegistered)) \<and>
   (\<not> activity_exists s an \<longrightarrow> unregister_from_activity s an em = (s, Inl NotFound)) \<and>
   NotFound \<noteq> NotRegistered \<and>
   status_code NotRegistered = 400 \<and>
   detail NotRegistered = ''Student is not signed up for this activity''"
  by (simp add: unregister_absent unregister_missing) (simp add: NotFound_def NotRegistered_def)

theorem unregister_not_registered_witness:
  "activity_exists seeded_store ''Chess Club'' \<and>
   \<not> registered seeded_store ''Chess Club'' ''new@mergington.edu'' \<and>
   unregister_from_activity seeded_store ''Chess Club'' ''new@mergington.edu'' =
     (seeded_store, Inl (HTTPException 400 ''Student is not signed up for this activity'')) \<and>
   \<not> activity_exists seeded_store ''Robotics Club'' \<and>
   unregister_from_activity seeded_store ''Robotics Club'' ''new@mergington.edu'' =
     (seeded_store, Inl (HTTPException 404 ''Activity not found''))"
proof -
  have h1: "\<not> activity_exists seeded_store ''Robotics Club''"
    by (simp add: seeded_tables activity_exists_def)
  from unregister_not_registered [of seeded_store "''Chess Club''" "''new@mergington.edu''"]
  have a: "unregister_from_activity seeded_store ''Chess Club'' ''new@mergington.edu'' =
     (seeded_store, Inl (HTTPException 400 ''Student is not signed up for this activity''))"
    using seeded_chess seeded_new by (simp add: NotRegistered_def)
  from unregister_not_registered [of seeded_store "''Robotics Club''" "''new@mergington.edu''"]
  have b: "unregister_from_activity seeded_store ''Robotics Club'' ''new@mergington.edu'' =
     (seeded_store, Inl (HTTPException 404 ''Activity not found''))"
    using h1 by (simp add: NotFound_def)
  from seeded_chess seeded_new a h1 b show ?thesis by simp
qed

lemma dom_fold_upd:
  "dom (fold (\<lambda>a r. r(name a \<mapsto> g a)) as m) = dom m \<union> name ` set as"
  by (induction as arbitrary: m) auto

lemma as_dict_dom: "dom (activities_as_dict s) = name ` set (activity_tbl s)"
  by (simp add: activities_as_dict_def dom_fold_upd)

lemma find_distinct_key:
  "distinct (map f xs) \<Longrightarrow> x \<in> set xs \<Longrightarrow> find (\<lambda>y. f y = f x) xs = Some x"
  by (induction xs) (auto simp: image_iff)

lemma as_dict_row:
  assumes "distinct (map name (activity_tbl s))" and "a \<in> set (activity_tbl s)"
  shows "activities_as_dict s (name a) = Some (entry_of s a)"
proof -
  from assms have "find (\<lambda>b. name b = name a) (rev (activity_tbl s)) = Some a"
    by (intro find_distinct_key) (simp_all add: rev_map [symmetric])
  then show ?thesis by (simp add: as_dict_lookup)
qed

section \<open>Listing the activities\<close>

text \<open>
  Claim C3. In every store the keys of the mapping returned by \<open>get_activities\<close> are
  exactly the names of the activity rows; each activity is mapped to an entry whose
  participant list is the list of emails of the participant rows that carry its name,
  so equal to them as a set; the entry carries the description, schedule and capacity of
  the row (names being the primary key of the table, no second row has the same name);
  and on a store with no activity row the mapping is empty. The operation has no error
  result at all.
\<close>

theorem get_activities_complete:
  "dom (get_activities s) = name ` set (activity_tbl s) \<and>
   (\<forall>a\<in>set (activity_tbl s). \<exists>v. get_activities s (name a) = Some v \<and>
      participants_v v = map email (filter (\<lambda>p. activity_name p = name a) (participant_tbl s)) \<and>
      set (participants_v v) = email ` {p \<in> set (participant_tbl s). activity_name p = name a}) \<and>
   (distinct (map name (activity_tbl s)) \<longrightarrow>
      (\<forall>a\<in>set (activity_tbl s). \<exists>v. get_activities s (name a) = Some v \<and>
         description_v v = description a \<and> schedule_v v = schedule a \<and>
         max_participants_v v = max_participants a)) \<and>
   (activity_tbl s = [] \<longrightarrow> get_activities s = Map.empty)"
proof (intro conjI ballI impI)
  show "dom (get_activities s) = name ` set (activity_tbl s)"
    by (simp add: get_activities_def as_dict_dom)
next
  fix a assume "a \<in> set (activity_tbl s)"
  then have "activity_exists s (name a)" by (simp add: activity_exists_def)
  then obtain v where v: "activities_as_dict s (name a) = Some v"
    and pv: "participants_v v =
       map email (filter (\<lambda>p. activity_name p = name a) (participant_tbl s))"
    using as_dict_participants by blast
  have "set (participants_v v) = email ` {p \<in> set (participant_tbl s). activity_name p = name a}"
    by (simp add: pv)
  with v pv show "\<exists>v. get_activities s (name a) = Some v \<and>
      participants_v v = map email (filter (\<lambda>p. activity_name p = name a) (participant_tbl s)) \<and>
      set (participants_v v) = email ` {p \<in> set (participant_tbl s). activity_name p = name a}"
    by (simp add: get_activities_def)
next
  fix a assume "distinct (map name (activity_tbl s))" and "a \<in> set (activity_tbl s)"
  then have "activities_as_dict s (name a) = Some (entry_of s a)" by (rule as_dict_row)
  then show "\<exists>v. get_activities s (name a) = Some v \<and>
         description_v v = description a \<and> schedule_v v = schedule a \<and>
         max_participants_v v = max_participants a"
    by (simp add: get_activities_def entry_of_def)
next
  assume "activity_tbl s = []"
  then show "get_activities s = Map.empty"
    by (simp add: get_activities_def activities_as_dict_def)
qed

theorem get_activities_complete_witness:
  "distinct (map name (activity_tbl seeded_store)) \<and>
   dom (get_activities seeded_store) =
     {''Chess Club'', ''Programming Class'', ''Gym Class'', ''Soccer Team'', ''Basketball Team'',
      ''Art Club'', ''Drama Club'', ''Math Club'', ''Debate Team''} \<and>
   get_activities seeded_store ''Chess Club'' =
     Some \<lparr>description_v = ''Learn strategies and compete in chess tournaments'',
           schedule_v = ''Fridays, 3:30 PM - 5:00 PM'', max_participants_v = 12,
           participants_v = [''michael@mergington.edu'', ''daniel@mergington.edu'']\<rparr> \<and>
   activity_tbl empty_store = [] \<and> get_activities empty_store = Map.empty"
proof -
  let ?chess = "\<lparr>name = ''Chess Club'',
        description = ''Learn strategies and compete in chess tournaments'',
        schedule = ''Fridays, 3:30 PM - 5:00 PM'', max_participants = 12\<rparr>"
  have d: "distinct (map name (activity_tbl seeded_store))"
    using seeded_keys by (simp add: primary_keys_unique_def)
  have m: "?chess \<in> set (activity_tbl seeded_store)"
    by (simp add: seeded_tables)
  have e: "activity_tbl empty_store = []" by (simp add: empty_store_def)
  note r = get_activities_complete [of seeded_store]
  from r have "dom (get_activities seeded_store) = name ` set (activity_tbl seeded_store)"
    by (rule conjunct1)
  then have keys: "dom (get_activities seeded_store) =
     {''Chess Club'', ''Programming Class'', ''Gym Class'', ''Soccer Team'', ''Basketball Team'',
      ''Art Club'', ''Drama Club'', ''Math Club'', ''Debate Team''}"
    by (simp add: seeded_tables)
  from r m obtain v where v: "get_activities seeded_store (name ?chess) = Some v"
    and pv: "participants_v v = map email
        (filter (\<lambda>p. activity_name p = name ?chess) (participant_tbl seeded_store))"
    by blast
  from r d m obtain w where w: "get_activities seeded_store (name ?chess) = Some w"
    and fields: "description_v w = description ?chess" "schedule_v w = schedule ?chess"
      "max_participants_v w = max_participants ?chess"
    by blast
  from v w have "w = v" by simp
  with fields pv have "v = \<lparr>description_v = ''Learn strategies and compete in chess tournaments'',
           schedule_v = ''Fridays, 3:30 PM - 5:00 PM'', max_participants_v = 12,
           participants_v = [''michael@mergington.edu'', ''daniel@mergington.edu'']\<rparr>"
    by (cases v) (simp add: seeded_tables)
  with v have chess: "get_activities seeded_store ''Chess Club'' =
     Some \<lparr>description_v = ''Learn strategies and compete in chess tournaments'',
           schedule_v = ''Fridays, 3:30 PM - 5:00 PM'', max_participants_v = 12,
           participants_v = [''michael@mergington.edu'', ''daniel@mergington.edu'']\<rparr>"
    by simp
  from get_activities_complete [of empty_store] e
  have "get_activities empty_store = Map.empty" by blast
  with d keys chess e show ?thesis by simp
qed

lemma filter_key_remove1:
  "distinct (map f xs) \<Longrightarrow> x \<in> set xs \<Longrightarrow> filter (\<lambda>q. f q \<noteq> f x) xs = remove1 x xs"
proof (induction xs)
  case Nil
  then show ?case by simp
next
  case (Cons y ys)
  show ?case
  proof (cases "y = x")
    case True
    with Cons.prems have "\<forall>q\<in>set ys. f q \<noteq> f x" by (auto simp: image_iff)
    then have "filter (\<lambda>q. f q \<noteq> f x) ys = ys" by (simp add: filter_id_conv)
    with True show ?thesis by simp
  next
    case False
    with Cons.prems have "x \<in> set ys" and "f y \<noteq> f x" and "distinct (map f ys)"
      by (auto simp: image_iff)
    with Cons.IH False show ?thesis by simp
  qed
qed

lemma select_after_delete:
  "select_participant_where (session_delete p s) an em =
     filter (\<lambda>q. id_pk q \<noteq> id_pk p) (select_participant_where s an em)"
  by (simp add: select_participant_where_def session_delete_def conj_commute)

text \<open>
  Claim C4, as amended. In every store (with unique primary keys) where the activity
  exists and a participant row for the pair exists, \<open>unregister_from_activity\<close>
  succeeds: it removes exactly one row, which is a row for the pair, and no other,
  and returns the message \<open>Unregistered {email} from {activity_name}\<close>. When that row
  was the only one for the pair, no row for the pair is left and the email is no longer
  in the participant list that \<open>get_activities\<close> reports for the activity.
\<close>

theorem unregister_succeeds:
  assumes "primary_keys_unique s" and "activity_exists s an" and "registered s an em"
  shows "\<exists>p\<in>set (participant_tbl s). activity_name p = an \<and> email p = em \<and>
           unregister_from_activity s an em =
             (s\<lparr>participant_tbl := remove1 p (participant_tbl s)\<rparr>,
              Inr (''Unregistered '' @ em @ '' from '' @ an)) \<and>
           length (participant_tbl (fst (unregister_from_activity s an em))) + 1 =
             length (participant_tbl s) \<and>
           (length (select_participant_where s an em) = 1 \<longrightarrow>
              \<not> registered (fst (unregister_from_activity s an em)) an em \<and>
              (\<exists>v. get_activities (fst (unregister_from_activity s an em)) an = Some v \<and>
                   em \<notin> set (participants_v v)))"
proof -
  from assms(3) obtain p rest where sel: "select_participant_where s an em = p # rest"
    by (cases "select_participant_where s an em") (auto simp: registered_def)
  then have "p \<in> set (select_participant_where s an em)" by simp
  then have p: "p \<in> set (participant_tbl s)" "activity_name p = an" "email p = em"
    by (auto simp: select_participant_where_def)
  from sel have fst_p: "first (select_participant_where s an em) = Some p"
    by (simp add: first_def)
  let ?s' = "session_delete p s"
  have res: "unregister_from_activity s an em =
      (?s', Inr (''Unregistered '' @ em @ '' from '' @ an))"
    using assms(2) fst_p by (rule unregister_present)
  from assms(1) have "distinct (map id_pk (participant_tbl s))"
    by (simp add: primary_keys_unique_def)
  then have del: "filter (\<lambda>q. id_pk q \<noteq> id_pk p) (participant_tbl s) = remove1 p (participant_tbl s)"
    using p(1) by (rule filter_key_remove1)
  then have s': "?s' = s\<lparr>participant_tbl := remove1 p (participant_tbl s)\<rparr>"
    by (simp add: session_delete_def)
  have len: "length (participant_tbl ?s') + 1 = length (participant_tbl s)"
  proof -
    from p(1) have "0 < length (participant_tbl s)" by (cases "participant_tbl s") auto
    with p(1) show ?thesis by (simp add: s' length_remove1)
  qed
  have gone: "\<not> registered ?s' an em \<and>
      (\<exists>v. get_activities ?s' an = Some v \<and> em \<notin> set (participants_v v))"
    if one: "length (select_participant_where s an em) = 1"
  proof -
    from one sel have "rest = []" by simp
    with sel have nil: "select_participant_where ?s' an em = []"
      by (simp add: select_after_delete)
    then have nr: "\<not> registered ?s' an em" by (simp add: registered_def)
    have "activity_exists ?s' an" using assms(2) by (simp add: activity_exists_def)
    then obtain v where v: "activities_as_dict ?s' an = Some v"
      and pv: "participants_v v =
         map email (filter (\<lambda>p. activity_name p = an) (participant_tbl ?s'))"
      using as_dict_participants by blast
    from nr have "em \<notin> set (participants_v v)"
      by (auto simp: pv registered_iff)
    with v nr show ?thesis by (auto simp: get_activities_def)
  qed
  show ?thesis
  proof (intro bexI [of _ p] conjI impI)
    show "unregister_from_activity s an em =
        (s\<lparr>participant_tbl := remove1 p (participant_tbl s)\<rparr>,
         Inr (''Unregistered '' @ em @ '' from '' @ an))"
      using res s' by simp
  qed (use p res len gone in simp_all)
qed

theorem unregister_succeeds_witness:
  "primary_keys_unique seeded_store \<and>
   activity_exists seeded_store ''Chess Club'' \<and>
   registered seeded_store ''Chess Club'' ''michael@mergington.edu'' \<and>
   length (select_participant_where seeded_store ''Chess Club'' ''michael@mergington.edu'') = 1 \<and>
   snd (unregister_from_activity seeded_store ''Chess Club'' ''michael@mergington.edu'') =
     Inr ''Unregistered michael@mergington.edu from Chess Club'' \<and>
   length (participant_tbl (fst (unregister_from_activity seeded_store ''Chess Club''
     ''michael@mergington.edu''))) = 17 \<and>
   \<not> registered (fst (unregister_from_activity seeded_store ''Chess Club''
     ''michael@mergington.edu'')) ''Chess Club'' ''michael@mergington.edu''"
proof -
  have reg: "registered seeded_store ''Chess Club'' ''michael@mergington.edu''"
    by (simp add: registered_def seeded_michael)
  have one: "length (select_participant_where seeded_store ''Chess Club''
      ''michael@mergington.edu'') = 1"
    by (simp add: seeded_michael)
  have len: "length (participant_tbl seeded_store) = 18"
    by (simp add: seeded_tables)
  from unregister_succeeds [OF seeded_keys seeded_chess reg] one len
  have "snd (unregister_from_activity seeded_store ''Chess Club'' ''michael@mergington.edu'') =
      Inr ''Unregistered michael@mergington.edu from Chess Club'' \<and>
    length (participant_tbl (fst (unregister_from_activity seeded_store ''Chess Club''
      ''michael@mergington.edu''))) = 17 \<and>
    \<not> registered (fst (unregister_from_activity seeded_store ''Chess Club''
      ''michael@mergington.edu'')) ''Chess Club'' ''michael@mergington.edu''"
    by auto
  with seeded_keys seeded_chess reg one show ?thesis by simp
qed

text \<open>
  The claim as first stated, without the condition on a second row, fails on
  \<open>twin_store\<close>: the unregister succeeds and the email is still listed.
\<close>

theorem unregister_succeeds_counterexample:
  "primary_keys_unique twin_store \<and>
   activity_exists twin_store ''Chess Club'' \<and>
   registered twin_store ''Chess Club'' ''michael@mergington.edu'' \<and>
   snd (unregister_from_activity twin_store ''Chess Club'' ''michael@mergington.edu'') =
     Inr ''Unregistered michael@mergington.edu from Chess Club'' \<and>
   map_option participants_v
     (get_activities (fst (unregister_from_activity twin_store ''Chess Club''
        ''michael@mergington.edu'')) ''Chess Club'') =
     Some [''michael@mergington.edu'']"
  by (simp add: twin_store_def primary_keys_unique_def activity_exists_def registered_def
      select_participant_where_def unregister_from_activity_def session_get_def first_def
      session_delete_def listing_defs)

section \<open>Referential integrity\<close>

lemma integrity_add_participant:
  "referential_integrity s \<Longrightarrow> activity_exists s an \<Longrightarrow>
   referential_integrity (add_participant em an s)"
  by (simp add: referential_integrity_def add_participant_def activity_exists_def)

lemma integrity_add_activity:
  "referential_integrity s \<Longrightarrow> referential_integrity (add_activity a s)"
  by (auto simp: referential_integrity_def add_activity_def list_all_iff)

lemma integrity_session_delete:
  "referential_integrity s \<Longrightarrow> referential_integrity (session_delete p s)"
  by (auto simp: referential_integrity_def session_delete_def list_all_iff)

lemma integrity_roster:
  "referential_integrity s \<Longrightarrow> activity_exists s an \<Longrightarrow>
   referential_integrity (fold (\<lambda>em. add_participant em an) ems s)"
  by (induction ems arbitrary: s) (simp_all add: integrity_add_participant)

lemma integrity_seed_activity:
  assumes "referential_integrity s"
  shows "referential_integrity (seed_activity nd s)"
  unfolding seed_activity_def
proof (rule integrity_roster)
  show "referential_integrity (add_activity
          \<lparr>name = fst nd, description = description_v (snd nd),
           schedule = schedule_v (snd nd),
           max_participants = max_participants_v (snd nd)\<rparr> s)"
    using assms by (rule integrity_add_activity)
  show "activity_exists (add_activity
          \<lparr>name = fst nd, description = description_v (snd nd),
           schedule = schedule_v (snd nd),
           max_participants = max_participants_v (snd nd)\<rparr> s) (fst nd)"
    by (simp add: activity_exists_def add_activity_def)
qed

lemma integrity_seed_loop:
  "referential_integrity s \<Longrightarrow> referential_integrity (fold seed_activity nds s)"
  by (induction nds arbitrary: s) (simp_all add: integrity_seed_activity)

lemma integrity_init:
  "referential_integrity s \<Longrightarrow> referential_integrity (init_db_with_seed s)"
  by (simp add: init_db_with_seed_def integrity_seed_loop split: option.splits)

lemma integrity_seeded: "referential_integrity seeded_store"
  unfolding seeded_store_def
  by (rule integrity_init) (simp add: referential_integrity_def empty_store_def)

lemma integrity_signup:
  "referential_integrity s \<Longrightarrow> referential_integrity (fst (signup_for_activity s an em))"
  using session_get_None [of s an]
  by (auto simp: signup_for_activity_def integrity_add_participant split: option.splits)

lemma integrity_unregister:
  "referential_integrity s \<Longrightarrow> referential_integrity (fst (unregister_from_activity s an em))"
  by (auto simp: unregister_from_activity_def integrity_session_delete split: option.splits)

lemma integrity_serve: "referential_integrity s \<Longrightarrow> referential_integrity (fst (serve s r))"
  by (cases r) (simp_all add: integrity_signup integrity_unregister)

lemma integrity_run: "referential_integrity s \<Longrightarrow> referential_integrity (run s rs)"
  by (induction rs arbitrary: s) (simp_all add: integrity_serve)

text \<open>
  Claim C7. In every store reached from the seeded store by any sequence of signups,
  unregistrations and listings, served one after the other, every participant row
  carries the name of an existing activity row; and each of the operations, run on any
  store with that property, leaves a store with that property.
\<close>

theorem run_referential_integrity:
  "referential_integrity (run seeded_store rs) \<and>
   (referential_integrity s \<longrightarrow> referential_integrity (fst (serve s r)))"
  by (simp add: integrity_run integrity_seeded integrity_serve)

text \<open>
  The scenario of the specification: on the seeded store a signup for the Chess Club, a
  listing, and the unregistration of one of its first two participants.
\<close>

theorem run_referential_integrity_witness:
  "referential_integrity seeded_store \<and>
   referential_integrity
     (fst (serve seeded_store (POST_signup ''Chess Club'' ''new@mergington.edu''))) \<and>
   referential_integrity
     (run seeded_store
        [POST_signup ''Chess Club'' ''new@mergington.edu'', GET_activities,
         DELETE_unregister ''Chess Club'' ''michael@mergington.edu''])"
proof -
  note a = run_referential_integrity [of "[]" seeded_store
      "POST_signup ''Chess Club'' ''new@mergington.edu''"]
  note b = run_referential_integrity [of
      "[POST_signup ''Chess Club'' ''new@mergington.edu'', GET_activities,
        DELETE_unregister ''Chess Club'' ''michael@mergington.edu'']" seeded_store
      "GET_activities"]
  from a have s: "referential_integrity seeded_store" by simp
  with a b show ?thesis by blast
qed

section \<open>Startup\<close>

lemma activity_tbl_roster:
  "activity_tbl (fold (\<lambda>em. add_participant em an) ems s) = activity_tbl s"
  by (induction ems arbitrary: s) simp_all

lemma seed_activity_nonempty: "activity_tbl (seed_activity nd s) \<noteq> []"
  by (simp add: seed_activity_def activity_tbl_roster add_activity_def)

lemma seed_loop_nonempty:
  "activity_tbl s \<noteq> [] \<Longrightarrow> activity_tbl (fold seed_activity nds s) \<noteq> []"
  by (induction nds arbitrary: s) (simp_all add: seed_activity_nonempty)

lemma seed_loop_adds:
  "nds \<noteq> [] \<Longrightarrow> activity_tbl (fold seed_activity nds s) \<noteq> []"
  by (cases nds) (simp_all add: seed_loop_nonempty seed_activity_nonempty)

lemma seed_nonempty: "seed \<noteq> []"
  by (simp add: seed_def)

lemma init_skips: "activity_tbl s \<noteq> [] \<Longrightarrow> init_db_with_seed s = s"
  by (cases "activity_tbl s") (simp_all add: init_db_with_seed_def first_def)

lemma init_nonempty: "activity_tbl (init_db_with_seed s) \<noteq> []"
proof (cases "activity_tbl s")
  case Nil
  have "activity_tbl (fold seed_activity seed s) \<noteq> []"
    using seed_nonempty by (rule seed_loop_adds)
  with Nil show ?thesis by (simp add: init_db_with_seed_def first_def)
next
  case (Cons a as)
  then show ?thesis by (simp add: init_db_with_seed_def first_def)
qed

text \<open>
  Claim C8. When an activity row exists already, \<open>init_db_with_seed\<close> writes nothing:
  the store it leaves is the store it found. Hence a second run of the initialization,
  on any store, leaves what the first run left, with nothing duplicated or altered.
\<close>

theorem init_db_with_seed_idempotent:
  "(activity_tbl s \<noteq> [] \<longrightarrow> init_db_with_seed s = s) \<and>
   init_db_with_seed (init_db_with_seed s) = init_db_with_seed s"
  by (simp add: init_skips init_nonempty)

theorem init_db_with_seed_idempotent_witness:
  "activity_tbl seeded_store \<noteq> [] \<and> init_db_with_seed seeded_store = seeded_store \<and>
   init_db_with_seed (init_db_with_seed empty_store) = seeded_store \<and>
   length (activity_tbl (init_db_with_seed (init_db_with_seed empty_store))) = 9 \<and>
   length (participant_tbl (init_db_with_seed (init_db_with_seed empty_store))) = 18"
proof -
  have ne: "activity_tbl seeded_store \<noteq> []" by (simp add: seeded_tables)
  with init_db_with_seed_idempotent [of seeded_store]
  have a: "init_db_with_seed seeded_store = seeded_store" by blast
  from init_db_with_seed_idempotent [of empty_store]
  have b: "init_db_with_seed (init_db_with_seed empty_store) = seeded_store"
    by (simp add: seeded_store_def)
  have "length (activity_tbl seeded_store) = 9" "length (participant_tbl seeded_store) = 18"
    by (simp_all add: seeded_tables)
  with ne a b show ?thesis by simp
qed

section \<open>Capacity\<close>

lemma session_get_set_capacities:
  "session_get (set_capacities f s) an =
     map_option (\<lambda>a. a\<lparr>max_participants := f a\<rparr>) (session_get s an)"
proof -
  have "find (\<lambda>a. name a = an) (map (\<lambda>a. a\<lparr>max_participants := f a\<rparr>) as) =
      map_option (\<lambda>a. a\<lparr>max_participants := f a\<rparr>) (find (\<lambda>a. name a = an) as)" for as
    by (induction as) simp_all
  then show ?thesis by (simp add: session_get_def set_capacities_def)
qed

lemma select_set_capacities:
  "select_participant_where (set_capacities f s) an em = select_participant_where s an em"
  by (simp add: select_participant_where_def set_capacities_def)

lemma signup_set_capacities:
  "signup_for_activity (set_capacities f s) an em =
     (set_capacities f (fst (signup_for_activity s an em)), snd (signup_for_activity s an em))"
  by (simp add: signup_for_activity_def session_get_set_capacities select_set_capacities
      split: option.splits)
    (simp add: set_capacities_def add_participant_def)

lemma unregister_set_capacities:
  "unregister_from_activity (set_capacities f s) an em =
     (set_capacities f (fst (unregister_from_activity s an em)),
      snd (unregister_from_activity s an em))"
  by (simp add: unregister_from_activity_def session_get_set_capacities select_set_capacities
      split: option.splits)
    (simp add: set_capacities_def session_delete_def)

text \<open>
  Claim C9. \<open>signup_for_activity\<close> does not depend on \<open>max_participants\<close>: where the
  activity exists and the pair is not registered it succeeds and adds the row, also when
  the activity has as many participant rows as its capacity or more; and whatever the
  capacities of the activity rows are set to, signup and unregister give the same answer
  and write the same participant rows.
\<close>

theorem signup_ignores_capacity:
  "(activity_exists s an \<and> \<not> registered s an em \<and>
    (\<forall>a\<in>set (activity_tbl s). name a = an \<longrightarrow>
        max_participants a \<le> int (length (participants_of s a))) \<longrightarrow>
      snd (signup_for_activity s an em) = Inr (''Signed up '' @ em @ '' for '' @ an) \<and>
      participant_tbl (fst (signup_for_activity s an em)) =
        participant_tbl s @
          [\<lparr>id_pk = next_id (participant_tbl s), email = em, activity_name = an\<rparr>]) \<and>
   signup_for_activity (set_capacities f s) an em =
     (set_capacities f (fst (signup_for_activity s an em)), snd (signup_for_activity s an em)) \<and>
   unregister_from_activity (set_capacities f s) an em =
     (set_capacities f (fst (unregister_from_activity s an em)),
      snd (unregister_from_activity s an em))"
  by (simp add: signup_set_capacities unregister_set_capacities signup_new)
     (simp add: add_participant_def)

text \<open>
  A full activity: the Chess Club of the seeded store with its capacity set to 2, the
  number of its participants.
\<close>

theorem signup_ignores_capacity_witness:
  "activity_exists (set_capacities (\<lambda>a. 2) seeded_store) ''Chess Club'' \<and>
   \<not> registered (set_capacities (\<lambda>a. 2) seeded_store) ''Chess Club'' ''new@mergington.edu'' \<and>
   map (\<lambda>a. (max_participants a,
              length (participants_of (set_capacities (\<lambda>a. 2) seeded_store) a)))
     (filter (\<lambda>a. name a = ''Chess Club'')
        (activity_tbl (set_capacities (\<lambda>a. 2) seeded_store))) = [(2, 2)] \<and>
   snd (signup_for_activity (set_capacities (\<lambda>a. 2) seeded_store) ''Chess Club''
     ''new@mergington.edu'') = Inr ''Signed up new@mergington.edu for Chess Club'' \<and>
   length (participant_tbl (fst (signup_for_activity (set_capacities (\<lambda>a. 2) seeded_store)
     ''Chess Club'' ''new@mergington.edu''))) = 19"
proof -
  let ?s = "set_capacities (\<lambda>a. 2) seeded_store"
  have h1: "activity_exists ?s ''Chess Club''"
    by (simp add: seeded_tables set_capacities_def activity_exists_def)
  have h2: "\<not> registered ?s ''Chess Club'' ''new@mergington.edu''"
    using seeded_new by (simp add: registered_def select_set_capacities)
  have h3: "\<forall>a\<in>set (activity_tbl ?s). name a = ''Chess Club'' \<longrightarrow>
      max_participants a \<le> int (length (participants_of ?s a))"
    by (simp add: seeded_tables set_capacities_def participants_of_def)
  have full: "map (\<lambda>a. (max_participants a, length (participants_of ?s a)))
     (filter (\<lambda>a. name a = ''Chess Club'') (activity_tbl ?s)) = [(2, 2)]"
    by (simp add: seeded_tables set_capacities_def participants_of_def)
  have len: "length (participant_tbl ?s) = 18"
    by (simp add: seeded_tables set_capacities_def)
  from signup_ignores_capacity [of ?s "''Chess Club''" "''new@mergington.edu''" "\<lambda>a. 2"] h1 h2 h3
  have "snd (signup_for_activity ?s ''Chess Club'' ''new@mergington.edu'') =
      Inr (''Signed up '' @ ''new@mergington.edu'' @ '' for '' @ ''Chess Club'') \<and>
    participant_tbl (fst (signup_for_activity ?s ''Chess Club'' ''new@mergington.edu'')) =
      participant_tbl ?s @ [\<lparr>id_pk = next_id (participant_tbl ?s),
        email = ''new@mergington.edu'', activity_name = ''Chess Club''\<rparr>]"
    by blast
  with len have "snd (signup_for_activity ?s ''Chess Club'' ''new@mergington.edu'') =
      Inr ''Signed up new@mergington.edu for Chess Club'' \<and>
    length (participant_tbl (fst (signup_for_activity ?s ''Chess Club''
      ''new@mergington.edu''))) = 19"
    by simp
  with h1 h2 full show ?thesis by blast
qed

section \<open>Signing up and unregistering again\<close>

lemma delete_added:
  "session_delete \<lparr>id_pk = next_id (participant_tbl s), email = em, activity_name = an\<rparr>
     (add_participant em an s) = s"
proof -
  have "filter (\<lambda>q. id_pk q \<noteq> next_id (participant_tbl s)) (participant_tbl s) =
      participant_tbl s"
    using next_id_fresh [of _ "participant_tbl s"] by (fastforce simp: filter_id_conv)
  then show ?thesis by (simp add: session_delete_def add_participant_def)
qed

lemma select_added:
  "\<not> registered s an em \<Longrightarrow>
   select_participant_where (add_participant em an s) an em =
     [\<lparr>id_pk = next_id (participant_tbl s), email = em, activity_name = an\<rparr>]"
  by (simp add: registered_def select_participant_where_def add_participant_def)

lemma signup_then_unregister:
  assumes "activity_exists s an" and "\<not> registered s an em"
  shows "unregister_from_activity (add_participant em an s) an em =
     (s, Inr (''Unregistered '' @ em @ '' from '' @ an))"
proof -
  have "activity_exists (add_participant em an s) an" using assms(1) by simp
  moreover have "first (select_participant_where (add_participant em an s) an em) =
      Some \<lparr>id_pk = next_id (participant_tbl s), email = em, activity_name = an\<rparr>"
    using assms(2) by (simp add: select_added first_def)
  ultimately show ?thesis by (simp add: unregister_present delete_added)
qed

text \<open>
  Claim C10. In a store that satisfies the uniqueness invariant per (activity, email)
  pair, where the activity exists and the pair has no participant row, a signup followed
  by an unregistration of the same pair both succeed and restore the set of
  (activity name, email) pairs of the participant table; the activity rows are the same
  after each of the two calls. (The second call in fact leaves the very store the first
  one found.)
\<close>

theorem signup_unregister_roundtrip:
  assumes "pair_unique s" and "activity_exists s an" and "\<not> registered s an em"
  shows "case signup_for_activity s an em of (s1, r1) \<Rightarrow>
           case unregister_from_activity s1 an em of (s2, r2) \<Rightarrow>
             r1 = Inr (''Signed up '' @ em @ '' for '' @ an) \<and>
             r2 = Inr (''Unregistered '' @ em @ '' from '' @ an) \<and>
             (\<lambda>p. (activity_name p, email p)) ` set (participant_tbl s2) =
             (\<lambda>p. (activity_name p, email p)) ` set (participant_tbl s) \<and>
             activity_tbl s1 = activity_tbl s \<and> activity_tbl s2 = activity_tbl s \<and>
             s2 = s"
  using assms(2,3) by (simp add: signup_new signup_then_unregister)

theorem signup_unregister_roundtrip_witness:
  "pair_unique seeded_store \<and> activity_exists seeded_store ''Chess Club'' \<and>
   \<not> registered seeded_store ''Chess Club'' ''new@mergington.edu'' \<and>
   fst (unregister_from_activity
         (fst (signup_for_activity seeded_store ''Chess Club'' ''new@mergington.edu''))
         ''Chess Club'' ''new@mergington.edu'') = seeded_store \<and>
   snd (unregister_from_activity
         (fst (signup_for_activity seeded_store ''Chess Club'' ''new@mergington.edu''))
         ''Chess Club'' ''new@mergington.edu'') =
     Inr ''Unregistered new@mergington.edu from Chess Club''"
proof -
  have u: "pair_unique seeded_store"
    by (simp add: seeded_tables pair_unique_def)
  from signup_unregister_roundtrip [OF u seeded_chess seeded_new]
  have "fst (unregister_from_activity
         (fst (signup_for_activity seeded_store ''Chess Club'' ''new@mergington.edu''))
         ''Chess Club'' ''new@mergington.edu'') = seeded_store \<and>
   snd (unregister_from_activity
         (fst (signup_for_activity seeded_store ''Chess Club'' ''new@mergington.edu''))
         ''Chess Club'' ''new@mergington.edu'') =
     Inr ''Unregistered new@mergington.edu from Chess Club''"
    by (simp split: prod.splits)
  with u seeded_chess seeded_new show ?thesis by simp
qed

section \<open>Uniqueness in the stores the application reaches\<close>

text \<open>
  The stores reached by running the operations one after the other have unique primary
  keys and at most one participant row per (activity, email) pair, so that the
  conditions of the theorems above hold in each of them.
\<close>

lemma rows_unique_signup:
  assumes "rows_unique s"
  shows "rows_unique (fst (signup_for_activity s an em))"
proof (cases "activity_exists s an \<and> \<not> registered s an em")
  case True
  then have "signup_for_activity s an em =
      (add_participant em an s, Inr (''Signed up '' @ em @ '' for '' @ an))"
    by (simp add: signup_new)
  moreover have "rows_unique (add_participant em an s)"
    using assms True next_id_notin [of "participant_tbl s"]
    by (auto simp: rows_unique_def primary_keys_unique_def pair_unique_def add_participant_def
        registered_iff)
  ultimately show ?thesis by simp
next
  case False
  then have "fst (signup_for_activity s an em) = s"
    by (cases "activity_exists s an") (simp_all add: signup_missing signup_dup)
  with assms show ?thesis by simp
qed

lemma rows_unique_unregister:
  assumes "rows_unique s"
  shows "rows_unique (fst (unregister_from_activity s an em))"
proof -
  have "rows_unique (session_delete p s)" for p
    using assms
    by (simp add: rows_unique_def primary_keys_unique_def pair_unique_def session_delete_def
        distinct_map_filter)
  then show ?thesis
    by (simp add: unregister_from_activity_def assms split: option.splits)
qed

lemma rows_unique_seeded: "rows_unique seeded_store"
  by (simp add: rows_unique_def seeded_keys) (simp add: seeded_tables pair_unique_def)

lemma rows_unique_serve: "rows_unique s \<Longrightarrow> rows_unique (fst (serve s r))"
  by (cases r) (simp_all add: rows_unique_signup rows_unique_unregister)

lemma rows_unique_run: "rows_unique s \<Longrightarrow> rows_unique (run s rs)"
  by (induction rs arbitrary: s) (simp_all add: rows_unique_serve)

lemma seeded_run_rows_unique:
  "primary_keys_unique (run seeded_store rs) \<and> pair_unique (run seeded_store rs)"
  using rows_unique_run [OF rows_unique_seeded, of rs] by (simp add: rows_unique_def)

lemma pair_unique_one_row:
  "pair_unique s \<Longrightarrow> registered s an em \<Longrightarrow> length (select_participant_where s an em) = 1"
proof -
  assume u: "pair_unique s" and r: "registered s an em"
  have "distinct (map (\<lambda>p. (activity_name p, email p)) ps) \<Longrightarrow>
      length (filter (\<lambda>p. activity_name p = an \<and> email p = em) ps) \<le> 1" for ps
  proof (induction ps)
    case Nil
    then show ?case by simp
  next
    case (Cons q qs)
    show ?case
    proof (cases "activity_name q = an \<and> email q = em")
      case True
      with Cons.prems have "\<forall>p\<in>set qs. \<not> (activity_name p = an \<and> email p = em)"
        by (auto simp: image_iff)
      then have "filter (\<lambda>p. activity_name p = an \<and> email p = em) qs = []"
        by (simp add: filter_empty_conv)
      with True show ?thesis by simp
    next
      case False
      from Cons.prems have "distinct (map (\<lambda>p. (activity_name p, email p)) qs)" by simp
      then have "length (filter (\<lambda>p. activity_name p = an \<and> email p = em) qs) \<le> 1"
        by (rule Cons.IH)
      with False show ?thesis by auto
    qed
  qed
  with u have "length (select_participant_where s an em) \<le> 1"
    by (simp add: pair_unique_def select_participant_where_def)
  moreover from r have "0 < length (select_participant_where s an em)"
    unfolding registered_def by (rule length_greater_0_conv [THEN iffD2])
  ultimately show ?thesis by linarith
qed

text \<open>
  So in every store the application reaches from the seed, a registered pair has exactly
  one participant row, the condition under which an unregistration removes the email
  from the listing.
\<close>

lemma seeded_run_one_row:
  "registered (run seeded_store rs) an em \<Longrightarrow>
   length (select_participant_where (run seeded_store rs) an em) = 1"
  using seeded_run_rows_unique [of rs] by (simp add: pair_unique_one_row)

end
